theory Spec2Isabelle
  imports Complex_Main
begin

section \<open>PV mounting tool: load calculation and section selection (pv_calculator.py)\<close>

text \<open>
  The embedding follows \<^verbatim>\<open>pv_calculator.py\<close> function by function.

  \<^item> Python \<^verbatim>\<open>float\<close> values are modelled as \<open>real\<close> numbers, so the arithmetic
    below is exact where the program rounds to the nearest double. Python \<^verbatim>\<open>int\<close>
    values (panel and row counts, the result of \<^verbatim>\<open>math.ceil\<close>) are \<open>int\<close>.
  \<^item> Python \<^verbatim>\<open>str\<close> values are modelled as \<open>string\<close>, holding the UTF-8 bytes of
    the text. Two texts are equal exactly when their UTF-8 encodings are, which is all that
    the dictionary lookups of the program use.
  \<^item> A \<^verbatim>\<open>dict\<close> literal is an association list in insertion order, which is the
    iteration order of \<^verbatim>\<open>.items()\<close> and \<^verbatim>\<open>.keys()\<close>; a lookup is \<open>map_of\<close>.
  \<^item> Every \<^verbatim>\<open>raise\<close> is a value \<open>Inl e\<close> of a sum type; every
    \<^verbatim>\<open>try ... except Exception\<close> is a \<open>case\<close> on that sum.
\<close>

subsection \<open>Errors and list indexing\<close>

datatype py_error = IndexError | KeyError | ZeroDivisionError | ValueError

text \<open>\<^verbatim>\<open>props[i]\<close> for a non-negative literal index: raises IndexError out of range.\<close>

definition index :: "'a list \<Rightarrow> nat \<Rightarrow> py_error + 'a" where
  "index xs i = (if i < length xs then Inr (xs ! i) else Inl IndexError)"

subsection \<open>Constants (lines 12-14)\<close>

definition STEEL_DENSITY :: real where
  "STEEL_DENSITY = 7850"

definition STEEL_YIELD_STRENGTH :: real where
  "STEEL_YIELD_STRENGTH = 235"

definition SAFETY_FACTOR :: real where
  "SAFETY_FACTOR = 1.5"

subsection \<open>Dictionary keys\<close>

text \<open>The roof types of \<^verbatim>\<open>WIND_SHAPE_COEFF\<close>: single slope, double slope, flat.\<close>

definition roof_single :: string where
  "roof_single = [CHR 0xE5, CHR 0x8D, CHR 0x95, CHR 0xE5, CHR 0x9D, CHR 0xA1]"

definition roof_double :: string where
  "roof_double = [CHR 0xE5, CHR 0x8F, CHR 0x8C, CHR 0xE5, CHR 0x9D, CHR 0xA1]"

definition roof_flat :: string where
  "roof_flat = [CHR 0xE5, CHR 0xB9, CHR 0xB3, CHR 0xE9, CHR 0xA1, CHR 0xB6]"

text \<open>The cities of \<^verbatim>\<open>CITY_LOAD_DATA\<close>, in the order of the source; the last is the
  default entry.\<close>

definition city_beijing :: string where
  "city_beijing = [CHR 0xE5, CHR 0x8C, CHR 0x97, CHR 0xE4, CHR 0xBA, CHR 0xAC]"

definition city_shanghai :: string where
  "city_shanghai = [CHR 0xE4, CHR 0xB8, CHR 0x8A, CHR 0xE6, CHR 0xB5, CHR 0xB7]"

definition city_guangzhou :: string where
  "city_guangzhou = [CHR 0xE5, CHR 0xB9, CHR 0xBF, CHR 0xE5, CHR 0xB7, CHR 0x9E]"

definition city_harbin :: string where
  "city_harbin = [CHR 0xE5, CHR 0x93, CHR 0x88, CHR 0xE5, CHR 0xB0, CHR 0x94,
                  CHR 0xE6, CHR 0xBB, CHR 0xA8]"

definition city_urumqi :: string where
  "city_urumqi = [CHR 0xE4, CHR 0xB9, CHR 0x8C, CHR 0xE9, CHR 0xB2, CHR 0x81,
                  CHR 0xE6, CHR 0x9C, CHR 0xA8, CHR 0xE9, CHR 0xBD, CHR 0x90]"

definition city_lhasa :: string where
  "city_lhasa = [CHR 0xE6, CHR 0x8B, CHR 0x89, CHR 0xE8, CHR 0x90, CHR 0xA8]"

definition city_default :: string where
  "city_default = [CHR 0xE9, CHR 0xBB, CHR 0x98, CHR 0xE8, CHR 0xAE, CHR 0xA4]"

text \<open>The section names. The square tubes start with the character U+25A1.\<close>

definition square_sign :: string where
  "square_sign = [CHR 0xE2, CHR 0x96, CHR 0xA1]"

definition C80 :: string where
  "C80 = ''C80x40x15x2.0''"

definition C100 :: string where
  "C100 = ''C100x50x20x2.5''"

definition C120 :: string where
  "C120 = ''C120x50x20x2.5''"

definition C140 :: string where
  "C140 = ''C140x50x20x3.0''"

definition SQ60 :: string where
  "SQ60 = square_sign @ ''60x60x2.5''"

definition SQ80 :: string where
  "SQ80 = square_sign @ ''80x80x3.0''"

definition SQ100 :: string where
  "SQ100 = square_sign @ ''100x100x3.5''"

definition SQ120 :: string where
  "SQ120 = square_sign @ ''120x120x4.0''"

subsection \<open>Reference tables (lines 17-47)\<close>

definition WIND_SHAPE_COEFF :: "(string \<times> real) list" where
  "WIND_SHAPE_COEFF = [(roof_single, 1.3), (roof_double, 0.9), (roof_flat, 1.0)]"

record city_entry =
  wind :: real
  snow :: real

definition CITY_LOAD_DATA :: "(string \<times> city_entry) list" where
  "CITY_LOAD_DATA =
    [(city_beijing,   \<lparr>wind = 0.45, snow = 0.40\<rparr>),
     (city_shanghai,  \<lparr>wind = 0.55, snow = 0.20\<rparr>),
     (city_guangzhou, \<lparr>wind = 0.50, snow = 0.00\<rparr>),
     (city_harbin,    \<lparr>wind = 0.55, snow = 0.45\<rparr>),
     (city_urumqi,    \<lparr>wind = 0.60, snow = 0.80\<rparr>),
     (city_lhasa,     \<lparr>wind = 0.30, snow = 0.15\<rparr>),
     (city_default,   \<lparr>wind = 0.40, snow = 0.35\<rparr>)]"

text \<open>
  The catalog, as the source writes it: each C-section has six properties
  (height, width, lip, thickness, area in square centimetres, moment of inertia), each square tube
  has four (side, thickness, area in square centimetres, moment of inertia).
\<close>

definition STEEL_SECTIONS :: "(string \<times> real list) list" where
  "STEEL_SECTIONS =
    [(C80,   [80, 40, 15, 2.0, 4.24, 43.92]),
     (C100,  [100, 50, 20, 2.5, 6.78, 112.12]),
     (C120,  [120, 50, 20, 2.5, 7.18, 198.60]),
     (C140,  [140, 50, 20, 3.0, 8.64, 322.55]),
     (SQ60,  [60, 2.5, 5.67, 34.45]),
     (SQ80,  [80, 3.0, 8.76, 73.49]),
     (SQ100, [100, 3.5, 13.20, 178.08]),
     (SQ120, [120, 4.0, 18.18, 346.36])]"

text \<open>
  The area of a catalog entry as the comments of the table document it (lines 36 and 42):
  index 4 of the six properties of a C-section, index 2 of the four properties of a
  square tube.
\<close>

definition documented_area :: "real list \<Rightarrow> real" where
  "documented_area props = (if length props = 6 then props ! 4 else props ! 2)"

text \<open>
  The ordering the specification asks of the catalog, in its words: for every pair of
  consecutive entries, index 4 of the earlier property list is at most index 4 of the
  later one. An entry without an index 4 has no such area, and the property fails there.
\<close>

fun ascending_index4 :: "(string \<times> real list) list \<Rightarrow> bool" where
  "ascending_index4 [] = True"
| "ascending_index4 [e] = True"
| "ascending_index4 (e1 # e2 # es) =
     (case (index (snd e1) 4, index (snd e2) 4) of
        (Inr a1, Inr a2) \<Rightarrow> a1 \<le> a2 \<and> ascending_index4 (e2 # es)
      | _ \<Rightarrow> False)"

subsection \<open>The parameter record (the dictionary built at lines 211-223)\<close>

record params =
  location :: string
  roof_type :: string
  tilt_angle :: real
  mounting_height :: real
  pv_length :: real
  pv_width :: real
  pv_weight :: real
  pv_per_row :: int
  num_rows :: int
  column_spacing :: real
  span_length :: real

text \<open>The defaults of the prompts of \<^verbatim>\<open>get_user_input\<close> (lines 126-209).\<close>

definition default_params :: params where
  "default_params =
    \<lparr>location = city_default, roof_type = roof_flat, tilt_angle = 30.0,
     mounting_height = 3.0, pv_length = 1.7, pv_width = 1.0, pv_weight = 20.0,
     pv_per_row = 10, num_rows = 20, column_spacing = 2.5, span_length = 10.0\<rparr>"

text \<open>
  The domain the specification states for a parameter record: the tilt within 0 and 90
  degrees, every dimension, weight and count positive. The location and the roof type are
  any strings: the lookups below fall back to a default for an unknown key.
\<close>

definition domain_ok :: "params \<Rightarrow> bool" where
  "domain_ok p \<longleftrightarrow>
     0 \<le> tilt_angle p \<and> tilt_angle p \<le> 90 \<and> 0 < mounting_height p \<and>
     0 < pv_length p \<and> 0 < pv_width p \<and> 0 < pv_weight p \<and>
     0 < pv_per_row p \<and> 0 < num_rows p \<and>
     0 < column_spacing p \<and> 0 < span_length p"

subsection \<open>Load calculation (lines 226-304)\<close>

text \<open>\<^verbatim>\<open>dict.get(key, default)\<close>.\<close>

definition dict_get :: "(string \<times> 'v) list \<Rightarrow> string \<Rightarrow> 'v \<Rightarrow> 'v" where
  "dict_get d k dflt = (case map_of d k of Some v \<Rightarrow> v | None \<Rightarrow> dflt)"

text \<open>\<^verbatim>\<open>dict[key]\<close>: raises KeyError for a missing key.\<close>

definition dict_item :: "(string \<times> 'v) list \<Rightarrow> string \<Rightarrow> py_error + 'v" where
  "dict_item d k = (case map_of d k of Some v \<Rightarrow> Inr v | None \<Rightarrow> Inl KeyError)"

text \<open>\<^verbatim>\<open>math.radians\<close>.\<close>

definition radians :: "real \<Rightarrow> real" where
  "radians x = x * (pi / 180)"

text \<open>
  Lines 229 and 264: \<^verbatim>\<open>CITY_LOAD_DATA.get(params["location"], CITY_LOAD_DATA[d])\<close>
  with \<open>d\<close> the name of the default entry. Python evaluates the arguments of
  \<^verbatim>\<open>get\<close> first, so the default entry is looked up in every call, and a table without
  it would raise KeyError.
\<close>

definition city_data :: "params \<Rightarrow> py_error + city_entry" where
  "city_data p =
     (case dict_item CITY_LOAD_DATA city_default of
        Inl e \<Rightarrow> Inl e
      | Inr dflt \<Rightarrow> Inr (dict_get CITY_LOAD_DATA (location p) dflt))"

text \<open>The height coefficient of lines 234-242.\<close>

definition mu_z :: "real \<Rightarrow> real" where
  "mu_z height =
     (if height \<le> 5 then 1.0
      else if height \<le> 10 then 1.0
      else if height \<le> 15 then 1.14
      else 1.25)"

text \<open>The body of the \<^verbatim>\<open>try\<close> of \<^verbatim>\<open>calculate_wind_load\<close>.\<close>

definition wind_load_body :: "params \<Rightarrow> py_error + real" where
  "wind_load_body p =
     (case city_data p of
        Inl e \<Rightarrow> Inl e
      | Inr cd \<Rightarrow>
          let W0 = wind cd;
              height = mounting_height p;
              muz = mu_z height;
              mus = dict_get WIND_SHAPE_COEFF (roof_type p) 1.0;
              projected_area = sin (radians (tilt_angle p)) * pv_length p * pv_width p;
              wind_load = 1.0 * mus * muz * W0 * projected_area
                            * of_int (pv_per_row p) * of_int (num_rows p)
          in Inr \<bar>wind_load\<bar>)"

definition calculate_wind_load :: "params \<Rightarrow> real" where
  "calculate_wind_load p = (case wind_load_body p of Inr v \<Rightarrow> v | Inl e \<Rightarrow> 0)"

text \<open>The snow distribution coefficient of lines 269-275.\<close>

definition mu_r :: "real \<Rightarrow> real" where
  "mu_r tilt =
     (if tilt \<le> 25 then 1.0
      else if tilt \<le> 50 then 1.0 - (tilt - 25) / 25
      else 0)"

definition snow_load_body :: "params \<Rightarrow> py_error + real" where
  "snow_load_body p =
     (case city_data p of
        Inl e \<Rightarrow> Inl e
      | Inr cd \<Rightarrow>
          let S0 = snow cd;
              tilt = tilt_angle p;
              mur = mu_r tilt;
              area = pv_length p * pv_width p * cos (radians tilt);
              snow_load = mur * S0 * area * of_int (pv_per_row p) * of_int (num_rows p)
          in Inr snow_load)"

definition calculate_snow_load :: "params \<Rightarrow> real" where
  "calculate_snow_load p = (case snow_load_body p of Inr v \<Rightarrow> v | Inl e \<Rightarrow> 0)"

text \<open>
  \<^verbatim>\<open>calculate_dead_load\<close>: nothing in the body of its \<^verbatim>\<open>try\<close> can raise on a
  record of numbers, so the handler is not modelled.
\<close>

definition calculate_dead_load :: "params \<Rightarrow> real" where
  "calculate_dead_load p =
     (let pv_total_weight = pv_weight p * of_int (pv_per_row p) * of_int (num_rows p);
          support_weight_factor = 0.3;
          support_weight = pv_total_weight * support_weight_factor;
          dead_load = (pv_total_weight + support_weight) * 0.0098
      in dead_load)"

subsection \<open>Load combination (lines 306-325)\<close>

text \<open>
  Returns \<open>(design_load, combo1, combo2, combo3)\<close>. The body of the \<^verbatim>\<open>try\<close> is
  arithmetic on three numbers and cannot raise.
\<close>

definition calculate_combined_load :: "real \<Rightarrow> real \<Rightarrow> real \<Rightarrow> real \<times> real \<times> real \<times> real" where
  "calculate_combined_load dead_load wind_load snow_load =
     (let combo1 = 1.2 * dead_load + 1.4 * wind_load;
          combo2 = 1.2 * dead_load + 1.4 * snow_load;
          combo3 = 1.2 * dead_load + 0.9 * 1.4 * (wind_load + snow_load);
          design_load = max (max combo1 combo2) combo3
      in (design_load, combo1, combo2, combo3))"

subsection \<open>Column selection (lines 327-367)\<close>

text \<open>
  \<^verbatim>\<open>math.ceil(span_length / column_spacing) * num_rows\<close>, lines 332-333 and 373-374
  (and again at line 425, for the report): the division raises ZeroDivisionError for a
  spacing of zero.
\<close>

definition total_columns_raw :: "params \<Rightarrow> py_error + int" where
  "total_columns_raw p =
     (if column_spacing p = 0 then Inl ZeroDivisionError
      else Inr (\<lceil>span_length p / column_spacing p\<rceil> * num_rows p))"

text \<open>Lines 332-349: the required area in square centimetres.\<close>

definition required_area_cm2 :: "real \<Rightarrow> params \<Rightarrow> py_error + real" where
  "required_area_cm2 design_load p =
     (case total_columns_raw p of
        Inl e \<Rightarrow> Inl e
      | Inr tc \<Rightarrow>
          let total_columns = (if tc = 0 then 1 else tc);
              column_load = design_load / of_int total_columns;
              axial_force = column_load * 1000;
              required_area = axial_force / (STEEL_YIELD_STRENGTH / SAFETY_FACTOR)
          in Inr (required_area / 100))"

text \<open>
  The loop of lines 353-357 over \<^verbatim>\<open>STEEL_SECTIONS.items()\<close>: \<open>Inr (Some section)\<close>
  at the \<^verbatim>\<open>break\<close>, \<open>Inr None\<close> when the loop runs out, \<open>Inl IndexError\<close> when
  \<^verbatim>\<open>props[4]\<close> raises.
\<close>

fun scan_sections :: "(string \<times> real list) list \<Rightarrow> real \<Rightarrow> py_error + string option" where
  "scan_sections [] req = Inr None"
| "scan_sections ((section, props) # rest) req =
     (case index props 4 of
        Inl e \<Rightarrow> Inl e
      | Inr section_area \<Rightarrow>
          if section_area \<ge> req then Inr (Some section) else scan_sections rest req)"

text \<open>
  Line 361: \<^verbatim>\<open>max(STEEL_SECTIONS.keys(), key=lambda k: STEEL_SECTIONS[k][4])\<close>.
  Python's \<^verbatim>\<open>max\<close> computes the key of each element in turn, keeps the first of the
  largest, and raises ValueError on an empty sequence.
\<close>

definition area_key :: "string \<Rightarrow> py_error + real" where
  "area_key k =
     (case dict_item STEEL_SECTIONS k of Inl e \<Rightarrow> Inl e | Inr props \<Rightarrow> index props 4)"

fun max_loop :: "string \<Rightarrow> real \<Rightarrow> string list \<Rightarrow> py_error + string" where
  "max_loop best best_key [] = Inr best"
| "max_loop best best_key (k # ks) =
     (case area_key k of
        Inl e \<Rightarrow> Inl e
      | Inr v \<Rightarrow> if v > best_key then max_loop k v ks else max_loop best best_key ks)"

definition max_section :: "py_error + string" where
  "max_section =
     (case map fst STEEL_SECTIONS of
        [] \<Rightarrow> Inl ValueError
      | k # ks \<Rightarrow> (case area_key k of Inl e \<Rightarrow> Inl e | Inr v \<Rightarrow> max_loop k v ks))"

text \<open>
  The body of the \<^verbatim>\<open>try\<close> of \<^verbatim>\<open>select_column_section\<close>.
  \<^verbatim>\<open>not selected_section\<close> holds for \<^verbatim>\<open>None\<close> and for the empty string.
\<close>

definition select_body :: "real \<Rightarrow> params \<Rightarrow> py_error + string" where
  "select_body design_load p =
     (case required_area_cm2 design_load p of
        Inl e \<Rightarrow> Inl e
      | Inr req \<Rightarrow>
          (case scan_sections STEEL_SECTIONS req of
             Inl e \<Rightarrow> Inl e
           | Inr selected_section \<Rightarrow>
               (case selected_section of
                  None \<Rightarrow> max_section
                | Some s \<Rightarrow> if s = [] then max_section else Inr s)))"

text \<open>The handler of line 367 returns a fixed section.\<close>

definition select_column_section :: "real \<Rightarrow> params \<Rightarrow> string" where
  "select_column_section design_load p =
     (case select_body design_load p of Inr s \<Rightarrow> s | Inl e \<Rightarrow> SQ100)"

subsection \<open>Steel usage (lines 369-400)\<close>

text \<open>Returns \<open>(total_steel, column_weight, beam_weight, connection_weight)\<close>.\<close>

definition steel_usage_body :: "params \<Rightarrow> string \<Rightarrow> py_error + real \<times> real \<times> real \<times> real" where
  "steel_usage_body p column_section =
     (case total_columns_raw p of
        Inl e \<Rightarrow> Inl e
      | Inr total_columns \<Rightarrow>
          (case dict_item STEEL_SECTIONS column_section of
             Inl e \<Rightarrow> Inl e
           | Inr section_props \<Rightarrow>
               (case index section_props 4 of
                  Inl e \<Rightarrow> Inl e
                | Inr section_area_cm2 \<Rightarrow>
                    let section_area_m2 = section_area_cm2 / 10000;
                        column_length = mounting_height p * 1.2;
                        column_weight = section_area_m2 * column_length * STEEL_DENSITY
                                          * of_int total_columns;
                        beam_weight = column_weight * 0.6;
                        connection_weight = (column_weight + beam_weight) * 0.15;
                        total_steel = column_weight + beam_weight + connection_weight
                    in Inr (total_steel, column_weight, beam_weight, connection_weight))))"

definition calculate_steel_usage :: "params \<Rightarrow> string \<Rightarrow> real \<times> real \<times> real \<times> real" where
  "calculate_steel_usage p column_section =
     (case steel_usage_body p column_section of Inr r \<Rightarrow> r | Inl e \<Rightarrow> (0, 0, 0, 0))"

subsection \<open>The pipeline of \<^verbatim>\<open>main\<close> (lines 442-453)\<close>

record result =
  r_wind_load :: real
  r_snow_load :: real
  r_dead_load :: real
  r_design_load :: real
  r_combo1 :: real
  r_combo2 :: real
  r_combo3 :: real
  r_column_section :: string
  r_total_steel :: real
  r_column_weight :: real
  r_beam_weight :: real
  r_connection_weight :: real

definition pipeline :: "params \<Rightarrow> result" where
  "pipeline p =
     (let wind_load = calculate_wind_load p;
          snow_load = calculate_snow_load p;
          dead_load = calculate_dead_load p;
          (design_load, combo1, combo2, combo3) =
             calculate_combined_load dead_load wind_load snow_load;
          column_section = select_column_section design_load p;
          (total_steel, column_weight, beam_weight, connection_weight) =
             calculate_steel_usage p column_section
      in \<lparr>r_wind_load = wind_load, r_snow_load = snow_load, r_dead_load = dead_load,
          r_design_load = design_load, r_combo1 = combo1, r_combo2 = combo2,
          r_combo3 = combo3, r_column_section = column_section,
          r_total_steel = total_steel, r_column_weight = column_weight,
          r_beam_weight = beam_weight, r_connection_weight = connection_weight\<rparr>)"

subsection \<open>Notions used by the properties\<close>

text \<open>The documented area of the catalog entry of a name, if the name is in the catalog.\<close>

definition catalog_area :: "string \<Rightarrow> real option" where
  "catalog_area k = map_option documented_area (map_of STEEL_SECTIONS k)"

text \<open>A value lies within one percent of a stated figure.\<close>

definition within_tolerance :: "real \<Rightarrow> real \<Rightarrow> bool" where
  "within_tolerance x target \<longleftrightarrow> \<bar>x - target\<bar> \<le> 0.01 * \<bar>target\<bar>"

text \<open>
  A parameter record inside the ranges that \<^verbatim>\<open>get_user_input\<close> accepts: flat panels of
  3 m by 2 m and 50 kg, one row of 60, one column (spacing 10 m, span 10 m), default
  location and roof.
\<close>

definition heavy_params :: params where
  "heavy_params =
    \<lparr>location = city_default, roof_type = roof_flat, tilt_angle = 0.0,
     mounting_height = 3.0, pv_length = 3.0, pv_width = 2.0, pv_weight = 50.0,
     pv_per_row = 60, num_rows = 1, column_spacing = 10.0, span_length = 10.0\<rparr>"

section \<open>Properties\<close>

subsection \<open>Evaluation lemmas\<close>

lemmas key_defs = C80_def C100_def C120_def C140_def SQ60_def SQ80_def SQ100_def SQ120_def
  square_sign_def

lemmas city_defs = city_beijing_def city_shanghai_def city_guangzhou_def city_harbin_def
  city_urumqi_def city_lhasa_def city_default_def

lemmas roof_defs = roof_single_def roof_double_def roof_flat_def

subsection \<open>The catalog and its scan\<close>

lemma index4_six: "index [a, b, c, d, e, f] 4 = Inr e"
  by (simp add: index_def)

lemma index4_four: "index [a, b, c, d] 4 = Inl IndexError"
  by (simp add: index_def)

lemma catalog_lookup:
  "map_of STEEL_SECTIONS C80 = Some [80, 40, 15, 2.0, 4.24, 43.92]"
  "map_of STEEL_SECTIONS C100 = Some [100, 50, 20, 2.5, 6.78, 112.12]"
  "map_of STEEL_SECTIONS C120 = Some [120, 50, 20, 2.5, 7.18, 198.60]"
  "map_of STEEL_SECTIONS C140 = Some [140, 50, 20, 3.0, 8.64, 322.55]"
  "map_of STEEL_SECTIONS SQ60 = Some [60, 2.5, 5.67, 34.45]"
  "map_of STEEL_SECTIONS SQ80 = Some [80, 3.0, 8.76, 73.49]"
  "map_of STEEL_SECTIONS SQ100 = Some [100, 3.5, 13.20, 178.08]"
  "map_of STEEL_SECTIONS SQ120 = Some [120, 4.0, 18.18, 346.36]"
  by (simp_all add: STEEL_SECTIONS_def key_defs)

lemma catalog_area_vals:
  "catalog_area C80 = Some 4.24" "catalog_area SQ60 = Some 5.67"
  "catalog_area SQ100 = Some 13.2" "catalog_area SQ120 = Some 18.18"
  by (simp_all add: catalog_area_def catalog_lookup documented_area_def)

text \<open>
  The scan reads index 4 of every entry it reaches. The four C-sections have one; the
  first square tube does not, so a requirement above 8.64 ends the scan with IndexError.
\<close>

lemma scan_catalog:
  "scan_sections STEEL_SECTIONS req =
     (if req \<le> 4.24 then Inr (Some C80)
      else if req \<le> 6.78 then Inr (Some C100)
      else if req \<le> 7.18 then Inr (Some C120)
      else if req \<le> 8.64 then Inr (Some C140)
      else Inl IndexError)"
  by (simp add: STEEL_SECTIONS_def index4_six index4_four)

lemma keys_nonempty: "C80 \<noteq> []" "C100 \<noteq> []" "C120 \<noteq> []" "C140 \<noteq> []"
  by (simp_all add: key_defs)

text \<open>The key function of the fallback raises on the square tubes as well.\<close>

lemma max_section_raises: "max_section = Inl IndexError"
  by (simp add: max_section_def area_key_def dict_item_def STEEL_SECTIONS_def index_def key_defs)

lemma select_body_required:
  "required_area_cm2 d p = Inr req \<Longrightarrow>
   select_body d p =
     (if req \<le> 4.24 then Inr C80
      else if req \<le> 6.78 then Inr C100
      else if req \<le> 7.18 then Inr C120
      else if req \<le> 8.64 then Inr C140
      else Inl IndexError)"
  by (simp add: select_body_def scan_catalog keys_nonempty)

lemma select_required:
  "required_area_cm2 d p = Inr req \<Longrightarrow>
   select_column_section d p =
     (if req \<le> 4.24 then C80
      else if req \<le> 6.78 then C100
      else if req \<le> 7.18 then C120
      else if req \<le> 8.64 then C140
      else SQ100)"
  by (simp add: select_column_section_def select_body_required)

lemma select_failed:
  "required_area_cm2 d p = Inl e \<Longrightarrow> select_column_section d p = SQ100"
  by (simp add: select_column_section_def select_body_def)

lemma select_cases:
  "select_column_section d p \<in> {C80, C100, C120, C140, SQ100}"
proof (cases "required_area_cm2 d p")
  case (Inl e)
  then show ?thesis by (simp add: select_failed)
next
  case (Inr req)
  then show ?thesis by (simp add: select_required)
qed

lemma required_default:
  "required_area_cm2 d default_params = Inr (d * 3 / 3760)"
  by (simp add: required_area_cm2_def total_columns_raw_def default_params_def Let_def
      STEEL_YIELD_STRENGTH_def SAFETY_FACTOR_def)

subsection \<open>C1: the order of the catalog\<close>

text \<open>
  C1 as stated fails. The catalog lists the four C-sections and then the four square
  tubes. The fifth entry, the first square tube, has four properties and so no index 4;
  and by the documented areas the fourth entry (8.64) is followed by a smaller one (5.67).
  Neither by index 4 nor by documented area is the catalog in ascending order.
\<close>

theorem catalog_not_ascending:
  "index (snd (STEEL_SECTIONS ! 4)) 4 = Inl IndexError \<and>
   documented_area (snd (STEEL_SECTIONS ! 3)) = 8.64 \<and>
   documented_area (snd (STEEL_SECTIONS ! 4)) = 5.67 \<and>
   \<not> ascending_index4 STEEL_SECTIONS \<and>
   \<not> sorted (map (documented_area \<circ> snd) STEEL_SECTIONS)"
  by (simp add: STEEL_SECTIONS_def index_def documented_area_def)

text \<open>
  C1, amended: the catalog is in ascending order of area within each of its two families.
  For consecutive entries among the first four (the C-sections) index 4 of the earlier is
  at most index 4 of the later; the last four entries (the square tubes) are in ascending
  order of their documented area, index 2.
\<close>

theorem catalog_ascending_within_families:
  "map fst (take 4 STEEL_SECTIONS) = [C80, C100, C120, C140] \<and>
   ascending_index4 (take 4 STEEL_SECTIONS) \<and>
   map fst (drop 4 STEEL_SECTIONS) = [SQ60, SQ80, SQ100, SQ120] \<and>
   sorted (map (documented_area \<circ> snd) (drop 4 STEEL_SECTIONS))"
  by (simp add: STEEL_SECTIONS_def index_def documented_area_def)

subsection \<open>C9 and C10: what the selection can return\<close>

text \<open>
  C9: for every design load and every parameter record, \<open>select_column_section\<close> returns a
  key of the catalog, so the lookup \<^verbatim>\<open>STEEL_SECTIONS[column_section]\<close> of
  \<^verbatim>\<open>calculate_steel_usage\<close> does not raise KeyError on it.
\<close>

theorem select_returns_catalog_key:
  "\<exists>props. dict_item STEEL_SECTIONS (select_column_section d p) = Inr props"
  using select_cases [of d p] by (auto simp add: dict_item_def catalog_lookup)

text \<open>
  C10: \<open>select_column_section\<close> never returns the square tube of 60 mm. When the required
  area is at most 5.67, one of the first two entries scanned (4.24 or 6.78) satisfies it
  and is returned; the fallback of line 361 does not yield that tube, and the section
  returned by the handler is a different one.
\<close>

theorem select_never_SQ60:
  "select_column_section d p \<noteq> SQ60 \<and>
   (required_area_cm2 d p = Inr req \<and> req \<le> 5.67 \<longrightarrow>
      select_column_section d p = C80 \<and> req \<le> 4.24 \<or>
      select_column_section d p = C100 \<and> req \<le> 6.78) \<and>
   max_section \<noteq> Inr SQ60 \<and> SQ100 \<noteq> SQ60"
proof -
  have "select_column_section d p \<noteq> SQ60"
    using select_cases [of d p] by (auto simp add: key_defs)
  moreover have "required_area_cm2 d p = Inr req \<and> req \<le> 5.67 \<longrightarrow>
      select_column_section d p = C80 \<and> req \<le> 4.24 \<or>
      select_column_section d p = C100 \<and> req \<le> 6.78"
    by (auto simp add: select_required)
  moreover have "max_section \<noteq> Inr SQ60"
    by (simp add: max_section_raises)
  moreover have "SQ100 \<noteq> SQ60"
    by (simp add: key_defs)
  ultimately show ?thesis by blast
qed

text \<open>
  C10 at a design load of 6110 kN on the default record: the required area is 4.875, at
  most 5.67, and the second entry scanned is returned.
\<close>

theorem select_never_SQ60_witness:
  "required_area_cm2 6110 default_params = Inr 4.875 \<and> (4.875::real) \<le> 5.67 \<and>
   select_column_section 6110 default_params = C100 \<and>
   select_column_section 6110 default_params \<noteq> SQ60"
proof -
  have r: "required_area_cm2 6110 default_params = Inr 4.875"
    by (simp add: required_default)
  have le: "(4.875::real) \<le> 5.67" by simp
  note t = select_never_SQ60 [of 6110 default_params "4.875"]
  from t r le
  have "select_column_section 6110 default_params = C80 \<and> (4.875::real) \<le> 4.24 \<or>
        select_column_section 6110 default_params = C100 \<and> (4.875::real) \<le> 6.78"
    by blast
  then have "select_column_section 6110 default_params = C100" by simp
  moreover from t have "select_column_section 6110 default_params \<noteq> SQ60" by blast
  ultimately show ?thesis using r le by blast
qed

subsection \<open>Evaluating the loads\<close>

lemma city_data_known: "\<exists>cd. city_data p = Inr cd \<and> 0 \<le> snow cd \<and> 0 \<le> wind cd"
  by (simp add: city_data_def dict_item_def dict_get_def CITY_LOAD_DATA_def city_defs)

lemma city_data_default:
  "location p = city_default \<Longrightarrow> city_data p = Inr \<lparr>wind = 0.40, snow = 0.35\<rparr>"
  by (simp add: city_data_def dict_item_def dict_get_def CITY_LOAD_DATA_def city_defs)

lemma shape_flat: "dict_get WIND_SHAPE_COEFF roof_flat 1 = 1"
  by (simp add: dict_get_def WIND_SHAPE_COEFF_def roof_defs)

lemma radians_30: "radians 30 = pi / 6"
  by (simp add: radians_def)

lemma radians_0: "radians 0 = 0"
  by (simp add: radians_def)

lemma sqrt3_lower: "1.73 < sqrt 3"
  by (rule real_less_rsqrt) (simp add: power2_eq_square)

lemma sqrt3_upper: "sqrt 3 < 1.74"
  by (rule real_less_lsqrt) (simp_all add: power2_eq_square)

lemma wind_default: "calculate_wind_load default_params = 68"
  by (simp add: calculate_wind_load_def wind_load_body_def city_data_default Let_def
        default_params_def shape_flat)
     (simp add: radians_30 sin_30 mu_z_def)

lemma snow_default: "calculate_snow_load default_params = 47.6 * sqrt 3"
  by (simp add: calculate_snow_load_def snow_load_body_def city_data_default Let_def
        default_params_def)
     (simp add: radians_30 cos_30 mu_r_def)

lemma dead_default: "calculate_dead_load default_params = 50.96"
  by (simp add: calculate_dead_load_def Let_def default_params_def)

lemma combined_unfold:
  "calculate_combined_load d w s =
     (max (max (1.2 * d + 1.4 * w) (1.2 * d + 1.4 * s)) (1.2 * d + 0.9 * 1.4 * (w + s)),
      1.2 * d + 1.4 * w, 1.2 * d + 1.4 * s, 1.2 * d + 0.9 * 1.4 * (w + s))"
  by (simp add: calculate_combined_load_def Let_def)

lemma combined_default:
  "calculate_combined_load 50.96 68 (47.6 * sqrt 3) =
     (146.832 + 59.976 * sqrt 3, 156.352, 61.152 + 66.64 * sqrt 3, 146.832 + 59.976 * sqrt 3)"
proof -
  have c1: "1.2 * 50.96 + 1.4 * 68 = (156.352::real)" by simp
  have c2: "1.2 * 50.96 + 1.4 * (47.6 * sqrt 3) = 61.152 + 66.64 * sqrt 3" by simp
  have c3: "1.2 * 50.96 + 0.9 * 1.4 * (68 + 47.6 * sqrt 3) = 146.832 + 59.976 * sqrt 3"
    by (simp add: algebra_simps)
  have m: "max (max 156.352 (61.152 + 66.64 * sqrt 3)) (146.832 + 59.976 * sqrt 3)
             = 146.832 + 59.976 * sqrt 3"
    using sqrt3_lower sqrt3_upper by (simp add: max_def)
  show ?thesis unfolding combined_unfold c1 c2 c3 m ..
qed

lemma select_default: "select_column_section (146.832 + 59.976 * sqrt 3) default_params = C80"
proof -
  have "(146.832 + 59.976 * sqrt 3) * 3 / 3760 \<le> 4.24"
    using sqrt3_upper by simp
  then show ?thesis
    using select_required [OF required_default, of "146.832 + 59.976 * sqrt 3"] by simp
qed

lemma total_columns_default: "total_columns_raw default_params = Inr 80"
  by (simp add: total_columns_raw_def default_params_def)

lemma steel_default:
  "calculate_steel_usage default_params C80 = (1763.785728, 958.5792, 575.14752, 230.059008)"
  by (simp add: calculate_steel_usage_def steel_usage_body_def total_columns_default
        dict_item_def catalog_lookup index4_six Let_def STEEL_DENSITY_def)
     (simp add: default_params_def)

lemma pipeline_default:
  "pipeline default_params =
     \<lparr>r_wind_load = 68, r_snow_load = 47.6 * sqrt 3, r_dead_load = 50.96,
      r_design_load = 146.832 + 59.976 * sqrt 3, r_combo1 = 156.352,
      r_combo2 = 61.152 + 66.64 * sqrt 3, r_combo3 = 146.832 + 59.976 * sqrt 3,
      r_column_section = C80, r_total_steel = 1763.785728, r_column_weight = 958.5792,
      r_beam_weight = 575.14752, r_connection_weight = 230.059008\<rparr>"
  unfolding pipeline_def Let_def wind_default snow_default dead_default combined_default
    prod.case select_default steel_default ..

lemma cos_radians_nonneg:
  assumes "0 \<le> t" "t \<le> 90"
  shows "0 \<le> cos (radians t)"
proof -
  have lo: "- (pi / 2) \<le> radians t"
  proof -
    have "0 \<le> t * (pi / 180)" using assms(1) pi_ge_zero by simp
    moreover have "- (pi / 2) \<le> 0" using pi_ge_zero by simp
    ultimately show ?thesis unfolding radians_def by linarith
  qed
  have hi: "radians t \<le> pi / 2"
  proof -
    have "t * (pi / 180) \<le> 90 * (pi / 180)"
      using assms(2) pi_ge_zero by (intro mult_right_mono) simp_all
    then show ?thesis unfolding radians_def by simp
  qed
  from lo hi show ?thesis by (rule cos_ge_zero)
qed

lemma mu_r_nonneg: "0 \<le> mu_r t"
  by (simp add: mu_r_def)

lemma snow_load_unfold:
  "city_data p = Inr cd \<Longrightarrow>
   calculate_snow_load p =
     mu_r (tilt_angle p) * snow cd
       * (pv_length p * pv_width p * cos (radians (tilt_angle p)))
       * of_int (pv_per_row p) * of_int (num_rows p)"
  by (simp add: calculate_snow_load_def snow_load_body_def Let_def)

lemma wind_load_unfold:
  "city_data p = Inr cd \<Longrightarrow>
   calculate_wind_load p =
     \<bar>1.0 * dict_get WIND_SHAPE_COEFF (roof_type p) 1.0 * mu_z (mounting_height p) * wind cd
        * (sin (radians (tilt_angle p)) * pv_length p * pv_width p)
        * of_int (pv_per_row p) * of_int (num_rows p)\<bar>"
  by (simp add: calculate_wind_load_def wind_load_body_def Let_def)

lemma within_toleranceI:
  assumes "0 \<le> t" "0.99 * t \<le> x" "x \<le> 1.01 * t"
  shows "within_tolerance x t"
proof -
  have "x - t \<le> 0.01 * t" using assms(3) by simp
  moreover have "- (x - t) \<le> 0.01 * t" using assms(2) by simp
  ultimately have "\<bar>x - t\<bar> \<le> 0.01 * t" by (rule abs_leI)
  moreover have "\<bar>t\<bar> = t" using assms(1) by simp
  ultimately show ?thesis unfolding within_tolerance_def by simp
qed


subsection \<open>C2: the selection above the largest C-section\<close>

lemma wind_heavy: "calculate_wind_load heavy_params = 0"
  by (simp add: calculate_wind_load_def wind_load_body_def city_data_default Let_def
        heavy_params_def radians_0)

lemma snow_heavy: "calculate_snow_load heavy_params = 126"
  by (simp add: calculate_snow_load_def snow_load_body_def city_data_default Let_def
        heavy_params_def radians_0 mu_r_def)

lemma dead_heavy: "calculate_dead_load heavy_params = 38.22"
  by (simp add: calculate_dead_load_def Let_def heavy_params_def)

lemma combined_heavy:
  "calculate_combined_load 38.22 0 126 = (222.264, 45.864, 222.264, 204.624)"
  by (simp add: calculate_combined_load_def Let_def)

lemma required_heavy: "required_area_cm2 222.264 heavy_params = Inr (333396 / 23500)"
  by (simp add: required_area_cm2_def total_columns_raw_def heavy_params_def Let_def
      STEEL_YIELD_STRENGTH_def SAFETY_FACTOR_def)

lemma select_heavy: "select_column_section 222.264 heavy_params = SQ100"
  using select_required [OF required_heavy] by simp

lemma domain_ok_heavy: "domain_ok heavy_params"
  by (simp add: domain_ok_def heavy_params_def)

text \<open>
  C2 fails on the code. The claim: \<open>select_column_section\<close> never returns a section
  whose area is below the required area, unless the required area exceeds every catalog
  entry, and then it returns the largest entry, the square tube of 120 mm (18.18).

  The scan reads index 4 of each entry; the square tubes have four properties, so once the
  four C-sections are too small (a required area above 8.64) the scan raises IndexError
  at the first square tube, and the handler of line 367 returns the tube of 100 mm (13.20)
  whatever the requirement. The fallback of line 361, which the comment of line 359
  announces as the choice of the largest section, is never reached.
  \<^item> Design load 18800 kN on the default record: the required area is 15; the section
    returned has area 13.20, although the tube of 120 mm (18.18) is in the catalog.
  \<^item> Design load 25380 kN on the default record: the required area is 20.25, above every
    entry; the section returned is the tube of 100 mm, not the largest.
  \<^item> The whole pipeline on \<open>heavy_params\<close>, a record within the stated domain: the design
    load is 222.264 kN, the required area is above 13.20 and at most 18.18, and the
    section selected is the tube of 100 mm.
\<close>

theorem select_undersized:
  "required_area_cm2 18800 default_params = Inr 15 \<and>
   select_column_section 18800 default_params = SQ100 \<and>
   catalog_area SQ100 = Some 13.20 \<and> catalog_area SQ120 = Some 18.18 \<and>
   required_area_cm2 25380 default_params = Inr 20.25 \<and>
   select_column_section 25380 default_params = SQ100 \<and> SQ100 \<noteq> SQ120 \<and>
   domain_ok heavy_params \<and>
   r_design_load (pipeline heavy_params) = 222.264 \<and>
   required_area_cm2 222.264 heavy_params = Inr (333396 / 23500) \<and>
   (13.20::real) < 333396 / 23500 \<and> (333396 / 23500 :: real) \<le> 18.18 \<and>
   r_column_section (pipeline heavy_params) = SQ100"
proof -
  have a: "required_area_cm2 18800 default_params = Inr 15"
    by (simp add: required_default)
  have b: "required_area_cm2 25380 default_params = Inr 20.25"
    by (simp add: required_default)
  have sa: "select_column_section 18800 default_params = SQ100"
    by (simp add: select_required [OF a])
  have sb: "select_column_section 25380 default_params = SQ100"
    by (simp add: select_required [OF b])
  have ne: "SQ100 \<noteq> SQ120" by (simp add: key_defs)
  have pd: "r_design_load (pipeline heavy_params) = 222.264"
    unfolding pipeline_def Let_def wind_heavy snow_heavy dead_heavy combined_heavy prod.case
    by (simp add: split_beta)
  have ps: "r_column_section (pipeline heavy_params) = SQ100"
    unfolding pipeline_def Let_def wind_heavy snow_heavy dead_heavy combined_heavy prod.case
      select_heavy
    by (simp add: split_beta)
  show ?thesis
    using a b sa sb ne pd ps catalog_area_vals(3,4) domain_ok_heavy required_heavy by simp
qed

subsection \<open>C3: the default scenario\<close>

text \<open>
  C3: on the default parameter record the pipeline gives a wind load of 68.00 kN, a snow
  load of 82.45 kN, a dead load of 50.96 kN, the combinations 156.35, 176.58 and
  250.71 kN, the design load 250.71 kN, 80 columns, the section C80x40x15x2.0 (4.24), and
  1764.7 kg of steel (columns 959.1, beams 575.4, connections 230.2), each number within
  one percent of the figure. The exact values are those of \<open>pipeline_default\<close>, with
  \<open>sin\<close> and \<open>cos\<close> of 30 degrees as \<open>1 / 2\<close> and \<open>sqrt 3 / 2\<close>.
\<close>

theorem default_scenario:
  "within_tolerance (r_wind_load (pipeline default_params)) 68.00 \<and>
   within_tolerance (r_snow_load (pipeline default_params)) 82.45 \<and>
   within_tolerance (r_dead_load (pipeline default_params)) 50.96 \<and>
   within_tolerance (r_combo1 (pipeline default_params)) 156.35 \<and>
   within_tolerance (r_combo2 (pipeline default_params)) 176.58 \<and>
   within_tolerance (r_combo3 (pipeline default_params)) 250.71 \<and>
   within_tolerance (r_design_load (pipeline default_params)) 250.71 \<and>
   total_columns_raw default_params = Inr 80 \<and>
   r_column_section (pipeline default_params) = C80 \<and>
   catalog_area C80 = Some 4.24 \<and>
   within_tolerance (r_total_steel (pipeline default_params)) 1764.7 \<and>
   within_tolerance (r_column_weight (pipeline default_params)) 959.1 \<and>
   within_tolerance (r_beam_weight (pipeline default_params)) 575.4 \<and>
   within_tolerance (r_connection_weight (pipeline default_params)) 230.2"
proof -
  have snow: "within_tolerance (47.6 * sqrt 3) 82.45"
    using sqrt3_lower sqrt3_upper by (intro within_toleranceI) simp_all
  have combo2: "within_tolerance (61.152 + 66.64 * sqrt 3) 176.58"
    using sqrt3_lower sqrt3_upper by (intro within_toleranceI) simp_all
  have combo3: "within_tolerance (146.832 + 59.976 * sqrt 3) 250.71"
    using sqrt3_lower sqrt3_upper by (intro within_toleranceI) simp_all
  have exact:
    "within_tolerance 68 68.00" "within_tolerance 50.96 50.96"
    "within_tolerance 156.352 156.35" "within_tolerance 1763.785728 1764.7"
    "within_tolerance 958.5792 959.1" "within_tolerance 575.14752 575.4"
    "within_tolerance 230.059008 230.2"
    by (simp_all add: within_tolerance_def)
  show ?thesis
    unfolding pipeline_default
    using snow combo2 combo3 exact total_columns_default catalog_area_vals(1)
    by simp
qed


subsection \<open>C4 and C5: the banded coefficients\<close>

text \<open>
  C4: the snow distribution coefficient that \<open>calculate_snow_load\<close> multiplies in is 1 for
  a tilt of at most 25 degrees, \<open>1 - (tilt - 25) / 25\<close> above 25 and up to 50 degrees, and 0
  above 50 degrees; at 0, 25, 37.5, 50 and 75 degrees it is 1, 1, 0.5, 0 and 0.
\<close>

theorem snow_distribution_coefficient:
  "(t \<le> 25 \<longrightarrow> mu_r t = 1.0) \<and>
   (25 < t \<and> t \<le> 50 \<longrightarrow> mu_r t = 1 - (t - 25) / 25) \<and>
   (50 < t \<longrightarrow> mu_r t = 0) \<and>
   mu_r 0 = 1.0 \<and> mu_r 25 = 1.0 \<and> mu_r 37.5 = 0.5 \<and> mu_r 50 = 0 \<and> mu_r 75 = 0 \<and>
   (city_data p = Inr cd \<longrightarrow>
      calculate_snow_load p =
        mu_r (tilt_angle p) * snow cd
          * (pv_length p * pv_width p * cos (radians (tilt_angle p)))
          * of_int (pv_per_row p) * of_int (num_rows p))"
proof -
  have "mu_r 0 = 1.0" "mu_r 25 = 1.0" "mu_r 37.5 = 0.5" "mu_r 50 = 0" "mu_r 75 = 0"
    by (simp_all add: mu_r_def)
  moreover have "t \<le> 25 \<longrightarrow> mu_r t = 1.0"
    by (simp add: mu_r_def)
  moreover have "25 < t \<and> t \<le> 50 \<longrightarrow> mu_r t = 1 - (t - 25) / 25"
    by (simp add: mu_r_def)
  moreover have "50 < t \<longrightarrow> mu_r t = 0"
    by (simp add: mu_r_def)
  ultimately show ?thesis using snow_load_unfold [of p cd] by blast
qed


text \<open>C4 at tilts of 10, 30 and 60 degrees, and the snow load of the default record.\<close>

theorem snow_distribution_coefficient_witness:
  "(10::real) \<le> 25 \<and> mu_r 10 = 1 \<and>
   (25::real) < 30 \<and> (30::real) \<le> 50 \<and> mu_r 30 = 0.8 \<and>
   (50::real) < 60 \<and> mu_r 60 = 0 \<and>
   city_data default_params = Inr \<lparr>wind = 0.40, snow = 0.35\<rparr> \<and>
   calculate_snow_load default_params
     = mu_r 30 * 0.35 * (1.7 * 1.0 * cos (radians 30)) * 10 * 20"
proof -
  have cd: "city_data default_params = Inr \<lparr>wind = 0.40, snow = 0.35\<rparr>"
    by (simp add: city_data_default default_params_def)
  have a: "mu_r 10 = 1"
    using snow_distribution_coefficient [of 10 default_params] by simp
  have b: "mu_r 30 = 0.8"
    using snow_distribution_coefficient [of 30 default_params] by simp
  have c: "mu_r 60 = 0"
    using snow_distribution_coefficient [of 60 default_params] by simp
  have d: "calculate_snow_load default_params
     = mu_r 30 * 0.35 * (1.7 * 1.0 * cos (radians 30)) * 10 * 20"
    using snow_distribution_coefficient [of 30 default_params "\<lparr>wind = 0.40, snow = 0.35\<rparr>"] cd
    by (simp add: default_params_def)
  show ?thesis using a b c d cd by simp
qed


text \<open>
  C5: the height coefficient that \<open>calculate_wind_load\<close> multiplies in is 1.0 up to 5 m,
  1.0 above 5 m and up to 10 m, 1.14 above 10 m and up to 15 m, and 1.25 above 15 m; at
  5, 10, 10.01, 15 and 15.01 m it is 1.0, 1.0, 1.14, 1.14 and 1.25.
\<close>

theorem wind_height_coefficient:
  "(h \<le> 5 \<longrightarrow> mu_z h = 1.0) \<and>
   (5 < h \<and> h \<le> 10 \<longrightarrow> mu_z h = 1.0) \<and>
   (10 < h \<and> h \<le> 15 \<longrightarrow> mu_z h = 1.14) \<and>
   (15 < h \<longrightarrow> mu_z h = 1.25) \<and>
   mu_z 5 = 1.0 \<and> mu_z 10 = 1.0 \<and> mu_z 10.01 = 1.14 \<and> mu_z 15 = 1.14 \<and>
   mu_z 15.01 = 1.25 \<and>
   (city_data p = Inr cd \<longrightarrow>
      calculate_wind_load p =
        \<bar>1.0 * dict_get WIND_SHAPE_COEFF (roof_type p) 1.0 * mu_z (mounting_height p)
           * wind cd * (sin (radians (tilt_angle p)) * pv_length p * pv_width p)
           * of_int (pv_per_row p) * of_int (num_rows p)\<bar>)"
proof -
  have "mu_z 5 = 1.0" "mu_z 10 = 1.0" "mu_z 10.01 = 1.14" "mu_z 15 = 1.14" "mu_z 15.01 = 1.25"
    by (simp_all add: mu_z_def)
  moreover have "h \<le> 5 \<longrightarrow> mu_z h = 1.0"
    by (simp add: mu_z_def)
  moreover have "5 < h \<and> h \<le> 10 \<longrightarrow> mu_z h = 1.0"
    by (simp add: mu_z_def)
  moreover have "10 < h \<and> h \<le> 15 \<longrightarrow> mu_z h = 1.14"
    by (simp add: mu_z_def)
  moreover have "15 < h \<longrightarrow> mu_z h = 1.25"
    by (simp add: mu_z_def)
  ultimately show ?thesis using wind_load_unfold [of p cd] by blast
qed


text \<open>C5 at heights of 3, 8, 12 and 20 m, and the wind load of the default record.\<close>

theorem wind_height_coefficient_witness:
  "(3::real) \<le> 5 \<and> mu_z 3 = 1 \<and>
   (5::real) < 8 \<and> (8::real) \<le> 10 \<and> mu_z 8 = 1 \<and>
   (10::real) < 12 \<and> (12::real) \<le> 15 \<and> mu_z 12 = 1.14 \<and>
   (15::real) < 20 \<and> mu_z 20 = 1.25 \<and>
   city_data default_params = Inr \<lparr>wind = 0.40, snow = 0.35\<rparr> \<and>
   calculate_wind_load default_params
     = \<bar>1.0 * 1.0 * mu_z 3 * 0.40 * (sin (radians 30) * 1.7 * 1.0) * 10 * 20\<bar>"
proof -
  have cd: "city_data default_params = Inr \<lparr>wind = 0.40, snow = 0.35\<rparr>"
    by (simp add: city_data_default default_params_def)
  have a: "mu_z 3 = 1"
    using wind_height_coefficient [of 3 default_params] by simp
  have b: "mu_z 8 = 1"
    using wind_height_coefficient [of 8 default_params] by simp
  have c: "mu_z 12 = 1.14"
    using wind_height_coefficient [of 12 default_params] by simp
  have d: "mu_z 20 = 1.25"
    using wind_height_coefficient [of 20 default_params] by simp
  have e: "calculate_wind_load default_params
     = \<bar>1.0 * 1.0 * mu_z 3 * 0.40 * (sin (radians 30) * 1.7 * 1.0) * 10 * 20\<bar>"
    using wind_height_coefficient [of 3 default_params "\<lparr>wind = 0.40, snow = 0.35\<rparr>"] cd
    by (simp add: default_params_def shape_flat)
  show ?thesis using a b c d e cd by simp
qed


subsection \<open>C6 and C7: the load combination\<close>

text \<open>
  C6: for all loads, \<open>calculate_combined_load\<close> returns the three combinations
  \<open>1.2 dead + 1.4 wind\<close>, \<open>1.2 dead + 1.4 snow\<close> and \<open>1.2 dead + 0.9 * 1.4 (wind + snow)\<close>,
  and as design load the largest of the three.
\<close>

theorem combined_load_formulas:
  "calculate_combined_load d w s =
     (Max {1.2 * d + 1.4 * w, 1.2 * d + 1.4 * s, 1.2 * d + 0.9 * 1.4 * (w + s)},
      1.2 * d + 1.4 * w,
      1.2 * d + 1.4 * s,
      1.2 * d + 0.9 * 1.4 * (w + s))"
  by (simp add: calculate_combined_load_def Let_def max.assoc)


text \<open>
  C7: for non-negative loads, the design load does not decrease when one of the dead
  load, the wind load and the snow load increases and the other two stay fixed.
\<close>

theorem design_load_monotone:
  assumes "0 \<le> d" "0 \<le> w" "0 \<le> s" "d \<le> d'" "w \<le> w'" "s \<le> s'"
  shows "fst (calculate_combined_load d w s) \<le> fst (calculate_combined_load d' w s) \<and>
         fst (calculate_combined_load d w s) \<le> fst (calculate_combined_load d w' s) \<and>
         fst (calculate_combined_load d w s) \<le> fst (calculate_combined_load d w s')"
proof -
  have "fst (calculate_combined_load d w s) \<le> fst (calculate_combined_load d' w s)"
    unfolding combined_unfold fst_conv by (intro max.mono) (use assms(4) in simp_all)
  moreover
  have "fst (calculate_combined_load d w s) \<le> fst (calculate_combined_load d w' s)"
    unfolding combined_unfold fst_conv by (intro max.mono) (use assms(5) in simp_all)
  moreover
  have "fst (calculate_combined_load d w s) \<le> fst (calculate_combined_load d w s')"
    unfolding combined_unfold fst_conv by (intro max.mono) (use assms(6) in simp_all)
  ultimately show ?thesis by simp
qed


text \<open>C7 at the loads 1, 2, 3, each raised by one in turn.\<close>

theorem design_load_monotone_witness:
  "(0::real) \<le> 1 \<and> (0::real) \<le> 2 \<and> (0::real) \<le> 3 \<and>
   (1::real) \<le> 2 \<and> (2::real) \<le> 3 \<and> (3::real) \<le> 4 \<and>
   fst (calculate_combined_load 1 2 3) \<le> fst (calculate_combined_load 2 2 3) \<and>
   fst (calculate_combined_load 1 2 3) \<le> fst (calculate_combined_load 1 3 3) \<and>
   fst (calculate_combined_load 1 2 3) \<le> fst (calculate_combined_load 1 2 4)"
  using design_load_monotone [of 1 2 3 2 3 4] by simp


subsection \<open>C8: the loads are not negative\<close>

text \<open>
  C8: for every parameter record in the stated domain (the tilt within 0 and 90 degrees,
  the dimensions, the weight and the counts positive, any location and roof type),
  \<open>calculate_wind_load\<close>, \<open>calculate_snow_load\<close> and \<open>calculate_dead_load\<close> each return a
  non-negative value.
\<close>

theorem loads_nonnegative:
  assumes "domain_ok p"
  shows "0 \<le> calculate_wind_load p \<and> 0 \<le> calculate_snow_load p \<and>
         0 \<le> calculate_dead_load p"
proof -
  obtain cd where cd: "city_data p = Inr cd" and s0: "0 \<le> snow cd"
    using city_data_known [of p] by blast
  have wind_ok: "0 \<le> calculate_wind_load p"
    unfolding wind_load_unfold [OF cd] by (rule abs_ge_zero)
  have "0 \<le> cos (radians (tilt_angle p))"
    using assms by (intro cos_radians_nonneg) (simp_all add: domain_ok_def)
  moreover have "0 \<le> pv_length p" "0 \<le> pv_width p" "0 \<le> pv_weight p"
    "0 \<le> (of_int (pv_per_row p) :: real)" "0 \<le> (of_int (num_rows p) :: real)"
    using assms by (simp_all add: domain_ok_def)
  ultimately have snow_ok: "0 \<le> calculate_snow_load p"
    and dead_ok: "0 \<le> calculate_dead_load p"
    unfolding snow_load_unfold [OF cd] calculate_dead_load_def Let_def
    using s0 mu_r_nonneg [of "tilt_angle p"] by simp_all
  from wind_ok snow_ok dead_ok show ?thesis by simp
qed


text \<open>C8 on the default record.\<close>

theorem loads_nonnegative_witness:
  "domain_ok default_params \<and> 0 \<le> calculate_wind_load default_params \<and>
   0 \<le> calculate_snow_load default_params \<and> 0 \<le> calculate_dead_load default_params"
proof -
  have d: "domain_ok default_params"
    by (simp add: domain_ok_def default_params_def)
  from d loads_nonnegative [OF d] show ?thesis by simp
qed

end
